theory Spec2Isabelle
  imports Main "HOL-Library.Sublist"
begin

section \<open>The Scully publish action (src/index.ts)\<close>

text \<open>
  The action is one asynchronous function, \<open>run\<close>, that reads its inputs, probes the
  working directory and runs the package manager, the generator and git one command
  after the other. The embedding keeps that shape: every call that touches the outside
  world appends an event to a trace, and what the outside world answers (a file is
  there, a command fails, a parser throws) is read from an environment that may depend
  on everything done so far.

  A JavaScript string is modelled by the \<open>string\<close> of its UTF-8 encoding, which is how
  the inputs and the files reach the action. The characters that the code compares (the
  separator \<open>-- \<close>, the branch prefix, version numbers) are ASCII, so a position in the
  text of the code is a position in the bytes; a code point beyond ASCII is the sequence
  of its bytes.
\<close>

subsection \<open>String primitives of the JavaScript runtime\<close>

text \<open>
  The code points that \<open>String.prototype.trim\<close> removes, each as its UTF-8 encoding:
  the white space TAB, VT, FF, SPACE, NO-BREAK SPACE (U+00A0), the byte order mark
  (U+FEFF) and the other space separators (U+1680, U+2000 to U+200A, U+202F, U+205F,
  U+3000), and the line terminators LF, CR, U+2028 and U+2029.
\<close>

definition whitespace_sequences :: "string list" where
  "whitespace_sequences =
     [[CHR 0x09], [CHR 0x0A], [CHR 0x0B], [CHR 0x0C], [CHR 0x0D], [CHR 0x20],
      [CHR 0xC2, CHR 0xA0],
      [CHR 0xE1, CHR 0x9A, CHR 0x80],
      [CHR 0xE2, CHR 0x80, CHR 0x80], [CHR 0xE2, CHR 0x80, CHR 0x81],
      [CHR 0xE2, CHR 0x80, CHR 0x82], [CHR 0xE2, CHR 0x80, CHR 0x83],
      [CHR 0xE2, CHR 0x80, CHR 0x84], [CHR 0xE2, CHR 0x80, CHR 0x85],
      [CHR 0xE2, CHR 0x80, CHR 0x86], [CHR 0xE2, CHR 0x80, CHR 0x87],
      [CHR 0xE2, CHR 0x80, CHR 0x88], [CHR 0xE2, CHR 0x80, CHR 0x89],
      [CHR 0xE2, CHR 0x80, CHR 0x8A],
      [CHR 0xE2, CHR 0x80, CHR 0xA8], [CHR 0xE2, CHR 0x80, CHR 0xA9],
      [CHR 0xE2, CHR 0x80, CHR 0xAF],
      [CHR 0xE2, CHR 0x81, CHR 0x9F],
      [CHR 0xE3, CHR 0x80, CHR 0x80],
      [CHR 0xEF, CHR 0xBB, CHR 0xBF]]"

text \<open>The encoding of one code point is white space.\<close>

definition is_whitespace :: "string \<Rightarrow> bool" where
  "is_whitespace w = (w \<in> set whitespace_sequences)"

text \<open>
  Removing, as long as there is one, a sequence of \<open>seqs\<close> at the front. Every sequence
  used below has at least one character, so \<open>drop (length w - 1) s\<close> is the text after
  the sequence \<open>w\<close> found at the front of \<open>c # s\<close>.
\<close>

fun strip_leading :: "string list \<Rightarrow> string \<Rightarrow> string" where
  "strip_leading seqs [] = []"
| "strip_leading seqs (c # s) =
     (case find (\<lambda>w. prefix w (c # s)) seqs of
        None \<Rightarrow> c # s
      | Some w \<Rightarrow> strip_leading seqs (drop (length w - 1) s))"

definition trimStart :: "string \<Rightarrow> string" where
  "trimStart s = strip_leading whitespace_sequences s"

definition trimEnd :: "string \<Rightarrow> string" where
  "trimEnd s = rev (strip_leading (map rev whitespace_sequences) (rev s))"

definition trim :: "string \<Rightarrow> string" where
  "trim s = trimEnd (trimStart s)"

text \<open>
  \<open>s.length\<close> counts UTF-16 code units: one for every code point, and one more for a
  code point beyond U+FFFF, whose encoding starts with a byte from \<open>0xF0\<close>. The bytes
  from \<open>0x80\<close> to \<open>0xBF\<close> continue a code point.
\<close>

definition js_length :: "string \<Rightarrow> nat" where
  "js_length s =
     length (filter (\<lambda>c. \<not> ((0x80 :: nat) \<le> of_char c \<and> of_char c < (0xC0 :: nat))) s)
     + length (filter (\<lambda>c. (0xF0 :: nat) \<le> of_char c) s)"

text \<open>\<open>s.indexOf(t)\<close>: the first position at which \<open>t\<close> occurs in \<open>s\<close>, or \<open>-1\<close>.\<close>

fun indexOf :: "string \<Rightarrow> string \<Rightarrow> int" where
  "indexOf [] t = (if t = [] then 0 else - 1)"
| "indexOf (c # r) t =
     (if prefix t (c # r) then 0
      else (let i = indexOf r t in if i < 0 then - 1 else i + 1))"

text \<open>\<open>s.slice(n)\<close> for a non-negative \<open>n\<close>.\<close>

definition slice :: "string \<Rightarrow> nat \<Rightarrow> string" where
  "slice s n = drop n s"

text \<open>
  \<open>/@scullyio\/scully/.test(p)\<close>: the pattern has no anchor and no operator, so the
  test succeeds when the literal text occurs anywhere in \<open>p\<close>.
\<close>

fun occurs_in :: "string \<Rightarrow> string \<Rightarrow> bool" where
  "occurs_in t [] = (t = [])"
| "occurs_in t (c # r) = (prefix t (c # r) \<or> occurs_in t r)"

definition scully_regex_test :: "string \<Rightarrow> bool" where
  "scully_regex_test p = occurs_in ''@scullyio/scully'' p"

subsection \<open>Events, thrown values and the environment\<close>

text \<open>
  What a \<open>catch\<close> clause can receive: an instance of \<open>Error\<close> with its message, or any
  other value.
\<close>

datatype thrown = JsError string | NonError

text \<open>
  The effects of a run, in the order in which they happen. \<open>Exec\<close> carries the command
  line, the argument list and the \<open>cwd\<close> option of \<open>exec.exec\<close>; \<open>Cp\<close> the source, the
  destination and the \<open>force\<close> option of \<open>io.cp\<close>.
\<close>

datatype event =
    Log string
  | Exists string
  | ReadFile string
  | Exec string "string list" "string option"
  | Cp string string bool
  | SetFailed string
  | SetOutput string bool

text \<open>
  An entry of a parsed lock file: its \<open>version\<close> property, \<open>None\<close> when the property
  is \<open>undefined\<close>.
\<close>

type_synonym lock_entry = "string option"

text \<open>
  The environment of a run. \<open>input\<close> is the raw value of the \<open>INPUT_...\<close> variable of a
  named input (empty when unset). The \<open>context_*\<close> fields are \<open>github.context\<close>. The
  \<open>*_result\<close> functions say how a call to the outside answers after the events so far.
  The two parsers belong to libraries outside the repository and are parameters:
  \<open>lockfile_parse\<close> gives the entries of \<open>lockfile.parse(raw).object\<close> in key order,
  \<open>JSON_parse\<close> gives the \<open>dependencies\<close> property of the parsed value (\<open>None\<close> when the
  value has none).
\<close>

record env =
  input :: "string \<Rightarrow> string"
  context_ref :: string
  context_sha :: string
  context_actor :: string
  context_repo_owner :: string
  context_repo_repo :: string
  exists_result :: "event list \<Rightarrow> string \<Rightarrow> thrown + bool"
  exec_result :: "event list \<Rightarrow> string \<Rightarrow> string list \<Rightarrow> string option \<Rightarrow> thrown option"
  readFile_result :: "event list \<Rightarrow> string \<Rightarrow> thrown + string"
  cp_result :: "event list \<Rightarrow> string \<Rightarrow> string \<Rightarrow> thrown option"
  lockfile_parse :: "string \<Rightarrow> thrown + (string \<times> lock_entry) list"
  JSON_parse :: "string \<Rightarrow> thrown + (string \<times> lock_entry) list option"

text \<open>
  An action takes the trace so far and gives the extended trace with either the value
  thrown or the value returned.
\<close>

type_synonym 'a action = "event list \<Rightarrow> event list \<times> (thrown + 'a)"

definition return_io :: "'a \<Rightarrow> 'a action" where
  "return_io x h = (h, Inr x)"

definition throw_io :: "thrown \<Rightarrow> 'a action" where
  "throw_io e h = (h, Inl e)"

definition bind_io :: "'a action \<Rightarrow> ('a \<Rightarrow> 'b action) \<Rightarrow> 'b action" where
  "bind_io m f h = (case m h of (h', Inl e) \<Rightarrow> (h', Inl e) | (h', Inr x) \<Rightarrow> f x h')"

definition then_io :: "unit action \<Rightarrow> 'b action \<Rightarrow> 'b action" where
  "then_io m n = bind_io m (\<lambda>_. n)"

definition console_log :: "string \<Rightarrow> unit action" where
  "console_log msg h = (h @ [Log msg], Inr ())"

definition core_setFailed :: "string \<Rightarrow> unit action" where
  "core_setFailed msg h = (h @ [SetFailed msg], Inr ())"

definition core_setOutput :: "string \<Rightarrow> bool \<Rightarrow> unit action" where
  "core_setOutput name v h = (h @ [SetOutput name v], Inr ())"

text \<open>\<open>core.getInput(name)\<close> returns the input with surrounding white space removed.\<close>

definition core_getInput :: "env \<Rightarrow> string \<Rightarrow> string" where
  "core_getInput e name = trim (input e name)"

text \<open>
  \<open>ioUtil.exists\<close> answers \<open>false\<close> for a missing path and rethrows every other error of
  \<open>stat\<close>.
\<close>

definition ioUtil_exists :: "env \<Rightarrow> string \<Rightarrow> bool action" where
  "ioUtil_exists e path h = (h @ [Exists path], exists_result e h path)"

text \<open>\<open>exec.exec\<close> rejects when the command cannot be run or exits with a non-zero code.\<close>

definition exec_exec :: "env \<Rightarrow> string \<Rightarrow> string list \<Rightarrow> string option \<Rightarrow> unit action" where
  "exec_exec e commandLine args cwd h =
     (h @ [Exec commandLine args cwd],
      case exec_result e h commandLine args cwd of Some err \<Rightarrow> Inl err | None \<Rightarrow> Inr ())"

definition readFileSync :: "env \<Rightarrow> string \<Rightarrow> string action" where
  "readFileSync e path h = (h @ [ReadFile path], readFile_result e h path)"

definition io_cp :: "env \<Rightarrow> string \<Rightarrow> string \<Rightarrow> bool \<Rightarrow> unit action" where
  "io_cp e src dst force h =
     (h @ [Cp src dst force],
      case cp_result e h src dst of Some err \<Rightarrow> Inl err | None \<Rightarrow> Inr ())"

subsection \<open>Normalisation of the argument inputs (lines 37 to 48)\<close>

definition buildArgs_of :: "string \<Rightarrow> string" where
  "buildArgs_of inputValue =
     (let buildArgs = trim inputValue in
      if buildArgs \<noteq> [] \<and> indexOf buildArgs ''-- '' \<noteq> 0 then ''-- '' @ buildArgs
      else buildArgs)"

definition scullyArgs_of :: "string \<Rightarrow> string" where
  "scullyArgs_of inputValue =
     (let scullyArgs = trim inputValue in
      if indexOf scullyArgs ''-- '' = 0 then slice scullyArgs 3 else scullyArgs)"

subsection \<open>The version comparison of the semver library\<close>

text \<open>
  \<open>semver.lte(a, b)\<close> builds a \<open>SemVer\<close> object from each argument and compares them.
  The constructor throws a \<open>TypeError\<close> for a value that is not a string, for a string
  of more than 256 characters, for a string that the strict pattern
  \<^verbatim>\<open>^v?N\.N\.N(-P(\.P)*)?(\+B(\.B)*)?$\<close> does not match, and for a component beyond the
  largest safe integer. Here \<open>N\<close> is \<^verbatim>\<open>0|[1-9]\d*\<close>, \<open>P\<close> is \<open>N\<close> or
  \<^verbatim>\<open>\d*[a-zA-Z-][a-zA-Z0-9-]*\<close>, and \<open>B\<close> is \<^verbatim>\<open>[0-9A-Za-z-]+\<close>.
\<close>

definition MAX_LENGTH :: nat where
  "MAX_LENGTH = 256"

definition MAX_SAFE_INTEGER :: nat where
  "MAX_SAFE_INTEGER = 9007199254740991"

definition is_digit :: "char \<Rightarrow> bool" where
  "is_digit c = (c \<in> set ''0123456789'')"

definition is_letter_dash_number :: "char \<Rightarrow> bool" where
  "is_letter_dash_number c =
     (c \<in> set ''0123456789abcdefghijklmnopqrstuvwxyzABCDEFGHIJKLMNOPQRSTUVWXYZ-'')"

definition to_number :: "string \<Rightarrow> nat" where
  "to_number ds = foldl (\<lambda>n c. 10 * n + (of_char c - 48)) 0 ds"

definition numeric_identifier :: "string \<Rightarrow> bool" where
  "numeric_identifier s =
     (s = ''0'' \<or> (case s of [] \<Rightarrow> False | c # r \<Rightarrow> c \<noteq> CHR ''0'' \<and> list_all is_digit s))"

definition nonnumeric_identifier :: "string \<Rightarrow> bool" where
  "nonnumeric_identifier s = (list_all is_letter_dash_number s \<and> \<not> list_all is_digit s)"

definition prerelease_identifier :: "string \<Rightarrow> bool" where
  "prerelease_identifier s = (numeric_identifier s \<or> nonnumeric_identifier s)"

definition build_identifier :: "string \<Rightarrow> bool" where
  "build_identifier s = (s \<noteq> [] \<and> list_all is_letter_dash_number s)"

text \<open>\<open>s.split(sep)\<close> for a one-character separator.\<close>

fun split :: "char \<Rightarrow> string \<Rightarrow> string list" where
  "split sep [] = [[]]"
| "split sep (c # r) =
     (if c = sep then [] # split sep r
      else (case split sep r of [] \<Rightarrow> [[c]] | p # ps \<Rightarrow> (c # p) # ps))"

text \<open>
  The match of the strict pattern, with its five groups. No numeric identifier holds
  \<open>+\<close> or \<open>-\<close> and no pre-release identifier holds \<open>+\<close>, so the build part starts at
  the first \<open>+\<close> and the pre-release part at the first \<open>-\<close> before it.
\<close>

definition match_FULL ::
  "string \<Rightarrow> (string \<times> string \<times> string \<times> string option \<times> string option) option" where
  "match_FULL s =
     (let s1 = (case s of [] \<Rightarrow> [] | c # r \<Rightarrow> if c = CHR ''v'' then r else s);
          plain = takeWhile (\<lambda>c. c \<noteq> CHR ''+'') s1;
          m5 = (case dropWhile (\<lambda>c. c \<noteq> CHR ''+'') s1 of [] \<Rightarrow> None | _ # b \<Rightarrow> Some b);
          main = takeWhile (\<lambda>c. c \<noteq> CHR ''-'') plain;
          m4 = (case dropWhile (\<lambda>c. c \<noteq> CHR ''-'') plain of [] \<Rightarrow> None | _ # p \<Rightarrow> Some p)
      in case split CHR ''.'' main of
           [m1, m2, m3] \<Rightarrow>
             if numeric_identifier m1 \<and> numeric_identifier m2 \<and> numeric_identifier m3
                \<and> (case m4 of None \<Rightarrow> True
                    | Some p \<Rightarrow> list_all prerelease_identifier (split CHR ''.'' p))
                \<and> (case m5 of None \<Rightarrow> True
                    | Some b \<Rightarrow> list_all build_identifier (split CHR ''.'' b))
             then Some (m1, m2, m3, m4, m5)
             else None
         | _ \<Rightarrow> None)"

text \<open>
  A pre-release identifier is kept as its text: the library turns an all-digit
  identifier into a number, and the comparison below tests for digits again.
\<close>

record SemVer =
  major :: nat
  minor :: nat
  patch :: nat
  prerelease :: "string list"
  build :: "string list"

definition new_SemVer :: "string option \<Rightarrow> thrown + SemVer" where
  "new_SemVer version =
     (case version of
        None \<Rightarrow> Inl (JsError ''Invalid Version: undefined'')
      | Some v \<Rightarrow>
          if js_length v > MAX_LENGTH then Inl (JsError ''version is longer than 256 characters'')
          else
            (case match_FULL (trim v) of
               None \<Rightarrow> Inl (JsError (''Invalid Version: '' @ v))
             | Some (m1, m2, m3, m4, m5) \<Rightarrow>
                 if to_number m1 > MAX_SAFE_INTEGER then Inl (JsError ''Invalid major version'')
                 else if to_number m2 > MAX_SAFE_INTEGER then Inl (JsError ''Invalid minor version'')
                 else if to_number m3 > MAX_SAFE_INTEGER then Inl (JsError ''Invalid patch version'')
                 else Inr \<lparr>major = to_number m1, minor = to_number m2, patch = to_number m3,
                           prerelease = (case m4 of None \<Rightarrow> [] | Some p \<Rightarrow> split CHR ''.'' p),
                           build = (case m5 of None \<Rightarrow> [] | Some b \<Rightarrow> split CHR ''.'' b)\<rparr>))"

definition compare_numbers :: "nat \<Rightarrow> nat \<Rightarrow> int" where
  "compare_numbers a b = (if a = b then 0 else if a < b then - 1 else 1)"

text \<open>The operator \<open><\<close> on two strings: lexicographic on the character codes.\<close>

fun string_less :: "string \<Rightarrow> string \<Rightarrow> bool" where
  "string_less [] [] = False"
| "string_less [] (b # bs) = True"
| "string_less (a # as) [] = False"
| "string_less (a # as) (b # bs) =
     (if a = b then string_less as bs else (of_char a :: nat) < of_char b)"

text \<open>
  The conversion of a natural number to a Number: the nearest double, the even one of
  two that are equally near. \<open>bit_length\<close> is the number of binary digits.
\<close>

fun bit_length :: "nat \<Rightarrow> nat" where
  "bit_length n = (if n = 0 then 0 else Suc (bit_length (n div 2)))"

definition to_double :: "nat \<Rightarrow> nat" where
  "to_double n =
     (if n < 2 ^ 53 then n
      else
        (let e = bit_length n - 53;
             q = n div 2 ^ e;
             r = n mod 2 ^ e;
             half = 2 ^ (e - 1)
         in (if half < r \<or> (r = half \<and> odd q) then q + 1 else q) * 2 ^ e))"

text \<open>Two all-digit identifiers are converted to Numbers and compared as such.\<close>

definition compareIdentifiers :: "string \<Rightarrow> string \<Rightarrow> int" where
  "compareIdentifiers a b =
     (let anum = (a \<noteq> [] \<and> list_all is_digit a);
          bnum = (b \<noteq> [] \<and> list_all is_digit b)
      in if anum \<and> bnum then compare_numbers (to_double (to_number a)) (to_double (to_number b))
         else if a = b then 0
         else if anum \<and> \<not> bnum then - 1
         else if bnum \<and> \<not> anum then 1
         else if string_less a b then - 1
         else 1)"

definition compareMain :: "SemVer \<Rightarrow> SemVer \<Rightarrow> int" where
  "compareMain this other =
     (let c1 = compare_numbers (major this) (major other) in
      if c1 \<noteq> 0 then c1
      else
        (let c2 = compare_numbers (minor this) (minor other) in
         if c2 \<noteq> 0 then c2 else compare_numbers (patch this) (patch other)))"

fun comparePre_loop :: "string list \<Rightarrow> string list \<Rightarrow> int" where
  "comparePre_loop [] [] = 0"
| "comparePre_loop (a # as) [] = 1"
| "comparePre_loop [] (b # bs) = - 1"
| "comparePre_loop (a # as) (b # bs) =
     (if a = b then comparePre_loop as bs else compareIdentifiers a b)"

definition comparePre :: "SemVer \<Rightarrow> SemVer \<Rightarrow> int" where
  "comparePre this other =
     (if prerelease this \<noteq> [] \<and> prerelease other = [] then - 1
      else if prerelease this = [] \<and> prerelease other \<noteq> [] then 1
      else if prerelease this = [] \<and> prerelease other = [] then 0
      else comparePre_loop (prerelease this) (prerelease other))"

definition SemVer_compare :: "SemVer \<Rightarrow> SemVer \<Rightarrow> int" where
  "SemVer_compare this other =
     (let c = compareMain this other in if c \<noteq> 0 then c else comparePre this other)"

definition semver_lte :: "string option \<Rightarrow> string \<Rightarrow> thrown + bool" where
  "semver_lte a b =
     (case new_SemVer a of
        Inl err \<Rightarrow> Inl err
      | Inr x \<Rightarrow>
          (case new_SemVer (Some b) of
             Inl err \<Rightarrow> Inl err
           | Inr y \<Rightarrow> Inr (SemVer_compare x y \<le> 0)))"

subsection \<open>The steps of a run\<close>

definition DEFAULT_DEPLOY_BRANCH :: string where
  "DEFAULT_DEPLOY_BRANCH = ''main''"

text \<open>Lines 22 and 23: the deploy branch, the default when the input is empty.\<close>

definition deployBranch_of :: "env \<Rightarrow> string" where
  "deployBranch_of e =
     (let deployBranch = core_getInput e ''deploy-branch'' in
      if deployBranch = [] then DEFAULT_DEPLOY_BRANCH else deployBranch)"

text \<open>Lines 32 to 35: the dependencies are installed with the chosen package manager.\<close>

definition install_step :: "env \<Rightarrow> string \<Rightarrow> unit action" where
  "install_step e pkgManager =
     (let installCmd = (if pkgManager = ''yarn'' then ''install --frozen-lockfile'' else ''ci'') in
        then_io (console_log (''Installing your site's dependencies using '' @ pkgManager @ ''.''))
       (then_io (exec_exec e (pkgManager @ '' '' @ installCmd) [] None)
       (console_log ''Finished installing dependencies.'')))"

text \<open>Lines 50 to 53.\<close>

definition build_step :: "env \<Rightarrow> string \<Rightarrow> string \<Rightarrow> unit action" where
  "build_step e pkgManager buildArgs =
     then_io (console_log ''Ready to build your Scully site!'')
    (then_io (console_log (''Building with: '' @ pkgManager @ '' run build '' @ buildArgs))
    (then_io (exec_exec e (pkgManager @ '' run build '' @ buildArgs) [] None)
    (console_log ''Finished building your site.'')))"

text \<open>
  Lines 56 to 72. On the yarn path the keys of the parsed lock file are filtered with
  the pattern and the first key that is left is looked up; with no key left the index
  is \<open>undefined\<close>, which as a property name is the text \<open>undefined\<close>. Reading \<open>version\<close>
  from a missing entry, or an entry from a missing \<open>dependencies\<close>, throws a
  \<open>TypeError\<close> of the runtime.
\<close>

definition determine_scullyVersion :: "env \<Rightarrow> string \<Rightarrow> string option action" where
  "determine_scullyVersion e pkgManager =
     (if pkgManager = ''yarn'' then
        then_io (console_log ''Determine Scully version from './yarn.lock'.'')
       (bind_io (readFileSync e ''./yarn.lock'') (\<lambda>yarnLockRaw.
          case lockfile_parse e yarnLockRaw of
            Inl err \<Rightarrow> throw_io err
          | Inr object \<Rightarrow>
              (let getScullyChildObjectKey = filter scully_regex_test (map fst object) in
               case map_of object
                      (case getScullyChildObjectKey of [] \<Rightarrow> ''undefined'' | k # _ \<Rightarrow> k) of
                 None \<Rightarrow> throw_io (JsError ''Cannot read property 'version' of undefined'')
               | Some entry \<Rightarrow> return_io entry)))
      else
        then_io (console_log ''Determine Scully version from './package-lock.json'.'')
       (bind_io (readFileSync e ''./package-lock.json'') (\<lambda>packageLockJsonRaw.
          case JSON_parse e packageLockJsonRaw of
            Inl err \<Rightarrow> throw_io err
          | Inr None \<Rightarrow>
              throw_io (JsError ''Cannot read property '@scullyio/scully' of undefined'')
          | Inr (Some dependencies) \<Rightarrow>
              (case map_of dependencies ''@scullyio/scully'' of
                 None \<Rightarrow> throw_io (JsError ''Cannot read property 'version' of undefined'')
               | Some entry \<Rightarrow> return_io entry))))"

text \<open>A value inside a template literal.\<close>

definition template_value :: "string option \<Rightarrow> string" where
  "template_value v = (case v of None \<Rightarrow> ''undefined'' | Some s \<Rightarrow> s)"

text \<open>Lines 76 to 79: the flag for the generator versions up to \<open>0.0.85\<close>.\<close>

definition add_nw_flag :: "string option \<Rightarrow> string \<Rightarrow> string action" where
  "add_nw_flag scullyVersion scullyArgs =
     (case semver_lte scullyVersion ''0.0.85'' of
        Inl err \<Rightarrow> throw_io err
      | Inr lte \<Rightarrow>
          if lte then
            then_io (console_log ''Scully Version is less then '0.0.85', adding '--nw' flag'')
                    (return_io (''--nw '' @ scullyArgs))
          else return_io scullyArgs)"

text \<open>Lines 81 and 82.\<close>

definition generate_step :: "env \<Rightarrow> string \<Rightarrow> string \<Rightarrow> unit action" where
  "generate_step e pkgManager scullyArgs =
     then_io (exec_exec e (pkgManager @ '' run scully -- '' @ scullyArgs) [] None)
             (console_log ''Finished Scullying your site.'')"

text \<open>Lines 84 to 89.\<close>

definition cname_step :: "env \<Rightarrow> unit action" where
  "cname_step e =
     bind_io (ioUtil_exists e ''./CNAME'') (\<lambda>cnameExists.
       if cnameExists then
         then_io (console_log ''Copying CNAME over.'')
        (then_io (io_cp e ''./CNAME'' ''./dist/static/CNAME'' True)
        (console_log ''Finished copying CNAME.''))
       else return_io ())"

text \<open>Lines 91 to 110. The hat of the commit message is U+1F3A9.\<close>

definition top_hat :: string where
  "top_hat = [CHR 0xF0, CHR 0x9F, CHR 0x8E, CHR 0xA9]"

definition deploy_step :: "env \<Rightarrow> string \<Rightarrow> string \<Rightarrow> unit action" where
  "deploy_step e accessToken deployBranch =
     (let repo = context_repo_owner e @ ''/'' @ context_repo_repo e;
          repoURL = ''https://'' @ accessToken @ ''@github.com/'' @ repo @ ''.git'';
          cwd = Some ''./dist/static''
      in
        then_io (console_log ''Ready to deploy your new shiny site!'')
       (then_io (console_log (''Deploying to repo: '' @ repo @ '' and branch: '' @ deployBranch))
       (then_io (console_log
          ''You can configure the deploy branch by setting the `deploy-branch` input for this action.'')
       (then_io (exec_exec e ''git init'' [] cwd)
       (then_io (exec_exec e ''git config user.name'' [context_actor e] cwd)
       (then_io (exec_exec e ''git config user.email''
                   [context_actor e @ ''@users.noreply.github.com''] cwd)
       (then_io (exec_exec e ''git add'' [''.''] cwd)
       (then_io (exec_exec e ''git commit''
                   [''-m'', ''deployed via Scully Publish Action '' @ top_hat @ '' for ''
                            @ context_sha e] cwd)
       (then_io (exec_exec e ''git push'' [''-f'', repoURL, ''main:'' @ deployBranch] cwd)
       (console_log ''Finished deploying your site.''))))))))))"

subsection \<open>The run\<close>

text \<open>The sparkles of the last log line are U+2728.\<close>

definition sparkles :: string where
  "sparkles = [CHR 0xE2, CHR 0x9C, CHR 0xA8]"

text \<open>
  Lines 32 to 113: what the body does once \<open>pkgManager\<close> is bound. The source declares
  it \<open>const\<close>; here it is a parameter.
\<close>

definition run_with_pkgManager :: "env \<Rightarrow> string \<Rightarrow> string \<Rightarrow> string \<Rightarrow> unit action" where
  "run_with_pkgManager e accessToken deployBranch pkgManager =
     then_io (install_step e pkgManager)
       (let buildArgs = buildArgs_of (core_getInput e ''build-args'');
            scullyArgs = scullyArgs_of (core_getInput e ''scully-args'')
        in
          then_io (build_step e pkgManager buildArgs)
         (bind_io (determine_scullyVersion e pkgManager) (\<lambda>scullyVersion.
          then_io (console_log (''Scully Version '' @ template_value scullyVersion @ '' is used''))
         (bind_io (add_nw_flag scullyVersion scullyArgs) (\<lambda>scullyArgs.
          then_io (generate_step e pkgManager scullyArgs)
         (then_io (cname_step e)
         (then_io (deploy_step e accessToken deployBranch)
         (then_io (console_log (''Enjoy! '' @ sparkles))
         (core_setOutput ''success'' True)))))))))"

text \<open>Lines 14 to 113, the body of the \<open>try\<close> block.\<close>

definition run_body :: "env \<Rightarrow> unit action" where
  "run_body e =
     (let accessToken = core_getInput e ''access-token'' in
      if accessToken = [] then
        core_setFailed
          ''No personal access token found. Please provide one by setting the `access-token` input for this action.''
      else
        (let deployBranch = deployBranch_of e in
         if context_ref e = ''refs/heads/'' @ deployBranch then
           then_io (console_log (''Triggered by branch used to deploy: '' @ context_ref e @ ''.''))
                   (console_log ''Nothing to deploy.'')
         else
           bind_io (ioUtil_exists e ''./yarn.lock'') (\<lambda>yarnLockExists.
             run_with_pkgManager e accessToken deployBranch
               (if yarnLockExists then ''yarn'' else ''npm''))))"

text \<open>
  Lines 12 to 117: the body under the handler of line 115, which reports the message
  of an \<open>Error\<close> and does nothing for any other value. The result is the trace of the
  whole run.
\<close>

definition run :: "env \<Rightarrow> event list" where
  "run e =
     (case run_body e [] of
        (h, Inr _) \<Rightarrow> h
      | (h, Inl (JsError message)) \<Rightarrow> fst (core_setFailed message h)
      | (h, Inl NonError) \<Rightarrow> h)"

text \<open>Readings of a trace.\<close>

fun commands :: "event list \<Rightarrow> (string \<times> string list \<times> string option) list" where
  "commands [] = []"
| "commands (Exec c a d # h) = (c, a, d) # commands h"
| "commands (_ # h) = commands h"

fun failures :: "event list \<Rightarrow> string list" where
  "failures [] = []"
| "failures (SetFailed m # h) = m # failures h"
| "failures (_ # h) = failures h"

fun outputs :: "event list \<Rightarrow> (string \<times> bool) list" where
  "outputs [] = []"
| "outputs (SetOutput n v # h) = (n, v) # outputs h"
| "outputs (_ # h) = outputs h"

subsection \<open>Example environments\<close>

text \<open>
  The scenario of a project without \<open>yarn.lock\<close> whose \<open>package-lock.json\<close> lists the
  generator at \<open>0.0.80\<close>; the token is \<open>tok\<close>, every other input is unset, every command
  succeeds and there is no \<open>CNAME\<close> file.
\<close>

definition scenario_npm :: env where
  "scenario_npm =
     \<lparr>input = (\<lambda>name. if name = ''access-token'' then ''tok'' else []),
      context_ref = ''refs/heads/develop'',
      context_sha = ''0123abc'',
      context_actor = ''octocat'',
      context_repo_owner = ''owner'',
      context_repo_repo = ''site'',
      exists_result = (\<lambda>h path. Inr False),
      exec_result = (\<lambda>h commandLine args cwd. None),
      readFile_result = (\<lambda>h path. Inr ''{}''),
      cp_result = (\<lambda>h src dst. None),
      lockfile_parse = (\<lambda>raw. Inr []),
      JSON_parse = (\<lambda>raw. Inr (Some [(''@scullyio/scully'', Some ''0.0.80'')]))\<rparr>"

text \<open>
  A yarn project that depends on the generator at \<open>0.0.85\<close> and on one of its plugins at
  \<open>1.0.0\<close>. \<open>yarn.lock\<close> lists its entries in alphabetical order, so the plugin comes
  first.
\<close>

definition scenario_yarn_plugin :: env where
  "scenario_yarn_plugin =
     scenario_npm
       \<lparr>exists_result := (\<lambda>h path. Inr (path = ''./yarn.lock'')),
        lockfile_parse := (\<lambda>raw. Inr
          [(''@scullyio/scully-plugin-flash-prevention@^1.0.0'', Some ''1.0.0''),
           (''@scullyio/scully@^0.0.85'', Some ''0.0.85'')])\<rparr>"

text \<open>The same project as \<open>scenario_npm\<close>, triggered by a push to the deploy branch.\<close>

definition scenario_deploy_ref :: env where
  "scenario_deploy_ref = scenario_npm\<lparr>context_ref := ''refs/heads/main''\<rparr>"

text \<open>A run whose first command rejects with a value that is not an \<open>Error\<close>.\<close>

definition scenario_non_error :: env where
  "scenario_non_error = scenario_npm\<lparr>exec_result := (\<lambda>h commandLine args cwd. Some NonError)\<rparr>"

text \<open>
  The same project with no token, and with a token of white space only: a space, a
  NO-BREAK SPACE, a TAB, an IDEOGRAPHIC SPACE and a byte order mark.
\<close>

definition scenario_no_token :: env where
  "scenario_no_token = scenario_npm\<lparr>input := (\<lambda>name. [])\<rparr>"

definition scenario_blank_token :: env where
  "scenario_blank_token =
     scenario_npm
       \<lparr>input := (\<lambda>name.
          [CHR 0x20, CHR 0xC2, CHR 0xA0, CHR 0x09, CHR 0xE3, CHR 0x80, CHR 0x80,
           CHR 0xEF, CHR 0xBB, CHR 0xBF])\<rparr>"

text \<open>A project with a \<open>CNAME\<close> file and no \<open>yarn.lock\<close>.\<close>

definition scenario_cname :: env where
  "scenario_cname = scenario_npm\<lparr>exists_result := (\<lambda>h path. Inr (path = ''./CNAME''))\<rparr>"

subsection \<open>Properties of traces and actions\<close>

text \<open>An action appends to the trace, and every event it appends satisfies \<open>P\<close>.\<close>

definition emits :: "(event \<Rightarrow> bool) \<Rightarrow> 'a action \<Rightarrow> bool" where
  "emits P m = (\<forall>h. \<exists>new. fst (m h) = h @ new \<and> list_all P new)"

text \<open>The same, asked only of the executions that throw.\<close>

definition throws_within :: "(event \<Rightarrow> bool) \<Rightarrow> 'a action \<Rightarrow> bool" where
  "throws_within P m =
     (\<forall>h. \<exists>new. fst (m h) = h @ new \<and> (isl (snd (m h)) \<longrightarrow> list_all P new))"

text \<open>An action appends to the trace, and has appended \<open>ev\<close> whenever it returns.\<close>

definition reaches :: "event \<Rightarrow> 'a action \<Rightarrow> bool" where
  "reaches ev m = (\<forall>h. \<exists>new. fst (m h) = h @ new \<and> (\<not> isl (snd (m h)) \<longrightarrow> ev \<in> set new))"

text \<open>Events that report nothing about the outcome of the run.\<close>

fun quiet :: "event \<Rightarrow> bool" where
  "quiet (SetFailed m) = False"
| "quiet (SetOutput n v) = False"
| "quiet _ = True"

text \<open>
  Events that agree with a choice of package manager: a command is one of this package
  manager or of git, the installation is the one that belongs to it, the lock file
  read is its own, and \<open>./yarn.lock\<close> is not probed.
\<close>

fun agrees_with :: "string \<Rightarrow> event \<Rightarrow> bool" where
  "agrees_with pm (Exec c a d) =
     (c = pm @ (if pm = ''yarn'' then '' install --frozen-lockfile'' else '' ci'')
      \<or> prefix (pm @ '' run '') c \<or> prefix ''git '' c)"
| "agrees_with pm (ReadFile p) =
     (p = (if pm = ''yarn'' then ''./yarn.lock'' else ''./package-lock.json''))"
| "agrees_with pm (Exists p) = (p \<noteq> ''./yarn.lock'')"
| "agrees_with pm _ = True"

text \<open>The push of line 107 for the inputs and the context of an environment.\<close>

definition expected_push :: "env \<Rightarrow> event" where
  "expected_push e =
     Exec ''git push''
       [''-f'',
        ''https://'' @ core_getInput e ''access-token'' @ ''@github.com/''
          @ (context_repo_owner e @ ''/'' @ context_repo_repo e) @ ''.git'',
        ''main:'' @ deployBranch_of e]
       (Some ''./dist/static'')"

fun push_as_expected :: "env \<Rightarrow> event \<Rightarrow> bool" where
  "push_as_expected e (Exec c a d) = (if c = ''git push'' then Exec c a d = expected_push e else True)"
| "push_as_expected e _ = True"


section \<open>Proofs\<close>

subsection \<open>Strings\<close>

lemma indexOf_lower: "- 1 \<le> indexOf s t"
  by (induction s) (auto simp: Let_def)

lemma indexOf_0_iff: "indexOf s t = 0 \<longleftrightarrow> prefix t s"
proof (cases s)
  case Nil
  then show ?thesis by auto
next
  case (Cons c r)
  have "- 1 \<le> indexOf r t" by (rule indexOf_lower)
  then show ?thesis using Cons by (auto simp: Let_def)
qed

lemma strip_leading_suffix: "suffix (strip_leading seqs s) s"
proof (induction seqs s rule: strip_leading.induct)
  case (1 seqs)
  show ?case by simp
next
  case (2 seqs c s)
  show ?case
  proof (cases "find (\<lambda>w. prefix w (c # s)) seqs")
    case None
    then show ?thesis by simp
  next
    case (Some w)
    have "suffix (strip_leading seqs (drop (length w - 1) s)) (drop (length w - 1) s)"
      using 2 Some by simp
    moreover have "suffix (drop (length w - 1) s) (c # s)"
      by (simp add: suffix_ConsI suffix_drop)
    ultimately show ?thesis using Some by (auto intro: suffix_order.trans)
  qed
qed

lemma strip_leading_no_match:
  "strip_leading seqs s = c # r \<Longrightarrow> find (\<lambda>w. prefix w (c # r)) seqs = None"
proof (induction seqs s rule: strip_leading.induct)
  case (1 seqs)
  then show ?case by simp
next
  case (2 seqs c' s)
  then show ?case
    by (cases "find (\<lambda>w. prefix w (c' # s)) seqs") auto
qed

lemma strip_leading_fixed:
  "find (\<lambda>w. prefix w s) seqs = None \<Longrightarrow> strip_leading seqs s = s"
  by (cases s) simp_all

lemma strip_leading_idem:
  "strip_leading seqs (strip_leading seqs s) = strip_leading seqs s"
proof (cases "strip_leading seqs s")
  case Nil
  then show ?thesis by simp
next
  case (Cons c r)
  then show ?thesis
    using strip_leading_no_match [OF Cons] by (simp add: strip_leading_fixed)
qed

lemma trimEnd_idem: "trimEnd (trimEnd s) = trimEnd s"
  by (simp add: trimEnd_def strip_leading_idem)

lemma prefix_trimEnd: "prefix (trimEnd s) s"
proof -
  have "suffix (strip_leading (map rev whitespace_sequences) (rev s)) (rev s)"
    by (rule strip_leading_suffix)
  then show ?thesis by (simp add: trimEnd_def suffix_to_prefix)
qed

lemma trimStart_trimEnd_trimStart: "trimStart (trimEnd (trimStart s)) = trimEnd (trimStart s)"
proof (cases "trimEnd (trimStart s)")
  case Nil
  then show ?thesis by (simp add: trimStart_def)
next
  case (Cons c r)
  have pre: "prefix (c # r) (trimStart s)"
    using prefix_trimEnd [of "trimStart s"] Cons by simp
  then obtain c' r' where u: "trimStart s = c' # r'"
    by (cases "trimStart s") auto
  have "find (\<lambda>w. prefix w (c' # r')) whitespace_sequences = None"
    using u by (intro strip_leading_no_match) (simp add: trimStart_def)
  then have none: "\<not> prefix w (trimStart s)" if "w \<in> set whitespace_sequences" for w
    using that u by (simp add: find_None_iff)
  have "find (\<lambda>w. prefix w (c # r)) whitespace_sequences = None"
    unfolding find_None_iff using none pre by (auto dest: prefix_order.trans)
  then show ?thesis
    using Cons by (simp add: trimStart_def strip_leading_fixed)
qed

lemma trim_idem: "trim (trim s) = trim s"
  by (simp add: trim_def trimStart_trimEnd_trimStart trimEnd_idem)

lemma whitespace_all_at_front:
  "list_all (\<lambda>w. w \<noteq> [] \<and> find (\<lambda>x. prefix x (w @ r)) whitespace_sequences = Some w)
     whitespace_sequences"
  unfolding whitespace_sequences_def by simp

lemma whitespace_at_front:
  "w \<in> set whitespace_sequences \<Longrightarrow>
   w \<noteq> [] \<and> find (\<lambda>x. prefix x (w @ r)) whitespace_sequences = Some w"
  using whitespace_all_at_front [of r] by (simp add: list_all_iff)

lemma trimStart_whitespace: "list_all is_whitespace ws \<Longrightarrow> trimStart (concat ws) = []"
proof (induction ws)
  case Nil
  show ?case by (simp add: trimStart_def)
next
  case (Cons w ws)
  then have w: "w \<in> set whitespace_sequences" by (simp add: is_whitespace_def)
  obtain c w' where cw: "w = c # w'"
    using whitespace_at_front [OF w] by (cases w) auto
  have "find (\<lambda>x. prefix x (c # w' @ concat ws)) whitespace_sequences = Some w"
    using whitespace_at_front [OF w, of "concat ws"] cw by simp
  then have "trimStart (concat (w # ws)) = trimStart (concat ws)"
    using cw by (simp add: trimStart_def)
  then show ?case using Cons by simp
qed

lemma trim_whitespace: "list_all is_whitespace ws \<Longrightarrow> trim (concat ws) = []"
  by (simp add: trim_def trimStart_whitespace trimEnd_def)

lemmas string_defs = trim_def trimStart_def trimEnd_def whitespace_sequences_def slice_def
  scully_regex_test_def

subsection \<open>The version threshold\<close>

lemmas semver_defs = new_SemVer_def js_length_def MAX_LENGTH_def MAX_SAFE_INTEGER_def match_FULL_def
  numeric_identifier_def nonnumeric_identifier_def prerelease_identifier_def build_identifier_def
  is_digit_def is_letter_dash_number_def to_number_def

lemma threshold_parsed:
  "new_SemVer (Some ''0.0.85'') =
     Inr \<lparr>major = 0, minor = 0, patch = 85, prerelease = [], build = []\<rparr>"
  by (simp add: semver_defs string_defs Let_def)

lemma version_86_parsed:
  "new_SemVer (Some ''0.0.86'') =
     Inr \<lparr>major = 0, minor = 0, patch = 86, prerelease = [], build = []\<rparr>"
  by (simp add: semver_defs string_defs Let_def)

lemma version_beta_parsed:
  "new_SemVer (Some ''0.0.85-beta'') =
     Inr \<lparr>major = 0, minor = 0, patch = 85, prerelease = [''beta''], build = []\<rparr>"
  by (simp add: semver_defs string_defs Let_def)

lemma lte_threshold:
  "semver_lte v ''0.0.85'' = Inr b \<longleftrightarrow>
     (\<exists>sv. new_SemVer v = Inr sv \<and> b = (major sv = 0 \<and> minor sv = 0 \<and> patch sv \<le> 85))"
  by (auto simp: semver_lte_def threshold_parsed SemVer_compare_def compareMain_def comparePre_def
      compare_numbers_def Let_def split: sum.splits if_splits)

lemma add_nw_flag_result:
  "snd (add_nw_flag v args h) =
     (case semver_lte v ''0.0.85'' of
        Inl err \<Rightarrow> Inl err
      | Inr lte \<Rightarrow> Inr (if lte then ''--nw '' @ args else args))"
  by (simp add: add_nw_flag_def throw_io_def return_io_def then_io_def bind_io_def console_log_def
      split: sum.split)

text \<open>
  Claim C5. The flag \<open>--nw\<close> is put in front of the generator arguments exactly when
  the resolved version parses and is at most \<open>0.0.85\<close> in the order of the semver
  library. The threshold has no pre-release part, so a version is at most the threshold
  exactly when its major and minor numbers are \<open>0\<close> and its patch number is at most
  \<open>85\<close>, whatever its pre-release part. Version \<open>0.0.85\<close> gets the flag, \<open>0.0.86\<close> does
  not, \<open>0.0.85-beta\<close> gets it.
\<close>

theorem nw_flag_threshold:
  "(snd (add_nw_flag (Some v) args h) = Inr (''--nw '' @ args)) =
     (\<exists>sv. new_SemVer (Some v) = Inr sv \<and> major sv = 0 \<and> minor sv = 0 \<and> patch sv \<le> 85)
   \<and> (snd (add_nw_flag (Some v) args h) = Inr args) =
     (\<exists>sv. new_SemVer (Some v) = Inr sv \<and> \<not> (major sv = 0 \<and> minor sv = 0 \<and> patch sv \<le> 85))
   \<and> snd (add_nw_flag (Some ''0.0.85'') args h) = Inr (''--nw '' @ args)
   \<and> snd (add_nw_flag (Some ''0.0.86'') args h) = Inr args
   \<and> snd (add_nw_flag (Some ''0.0.85-beta'') args h) = Inr (''--nw '' @ args)"
proof -
  have flag: "(snd (add_nw_flag (Some v) args h) = Inr (''--nw '' @ args)) =
     (semver_lte (Some v) ''0.0.85'' = Inr True)" for v
    by (simp add: add_nw_flag_result split: sum.split)
  have noflag: "(snd (add_nw_flag (Some v) args h) = Inr args) =
     (semver_lte (Some v) ''0.0.85'' = Inr False)" for v
    by (simp add: add_nw_flag_result split: sum.split)
  have general_flag: "(snd (add_nw_flag (Some v) args h) = Inr (''--nw '' @ args)) =
     (\<exists>sv. new_SemVer (Some v) = Inr sv \<and> major sv = 0 \<and> minor sv = 0 \<and> patch sv \<le> 85)"
    unfolding flag by (simp add: lte_threshold)
  have general_noflag: "(snd (add_nw_flag (Some v) args h) = Inr args) =
     (\<exists>sv. new_SemVer (Some v) = Inr sv \<and> \<not> (major sv = 0 \<and> minor sv = 0 \<and> patch sv \<le> 85))"
    unfolding noflag by (simp add: lte_threshold)
  have at_threshold: "snd (add_nw_flag (Some ''0.0.85'') args h) = Inr (''--nw '' @ args)"
    unfolding flag by (simp add: lte_threshold threshold_parsed)
  have above: "snd (add_nw_flag (Some ''0.0.86'') args h) = Inr args"
    unfolding noflag by (simp add: lte_threshold version_86_parsed)
  have beta: "snd (add_nw_flag (Some ''0.0.85-beta'') args h) = Inr (''--nw '' @ args)"
    unfolding flag by (simp add: lte_threshold version_beta_parsed)
  from general_flag general_noflag at_threshold above beta show ?thesis
    by (intro conjI)
qed

subsection \<open>Argument normalisation\<close>

text \<open>
  The build arguments \<open>--foo\<close> do not start with the separator followed by a space, so
  they are not passed on unchanged.
\<close>

theorem buildArgs_flag_counterexample: "buildArgs_of ''--foo'' \<noteq> ''--foo''"
  by (simp add: buildArgs_of_def string_defs Let_def)

text \<open>
  Claim C2, amended. The build arguments \<open>--foo\<close> become \<open>-- --foo\<close>, \<open>foo\<close> becomes
  \<open>-- foo\<close> and the empty input stays empty; in general the value of the input, when it
  is not empty, gets the prefix \<open>-- \<close> exactly when it does not already start with it.
\<close>

theorem buildArgs_normalisation:
  "buildArgs_of ''--foo'' = ''-- --foo''
   \<and> buildArgs_of ''foo'' = ''-- foo''
   \<and> buildArgs_of '''' = ''''
   \<and> buildArgs_of (core_getInput e name) =
       (if core_getInput e name \<noteq> [] \<and> \<not> prefix ''-- '' (core_getInput e name)
        then ''-- '' @ core_getInput e name else core_getInput e name)"
proof -
  have "buildArgs_of (core_getInput e name) =
       (if core_getInput e name \<noteq> [] \<and> \<not> prefix ''-- '' (core_getInput e name)
        then ''-- '' @ core_getInput e name else core_getInput e name)"
    by (simp add: buildArgs_of_def core_getInput_def trim_idem indexOf_0_iff Let_def)
  moreover have "buildArgs_of ''--foo'' = ''-- --foo''"
    by (simp add: buildArgs_of_def string_defs Let_def)
  moreover have "buildArgs_of ''foo'' = ''-- foo''"
    by (simp add: buildArgs_of_def string_defs Let_def)
  moreover have "buildArgs_of '''' = ''''"
    by (simp add: buildArgs_of_def string_defs Let_def)
  ultimately show ?thesis by blast
qed

text \<open>
  Claim C6. The generator arguments lose exactly the leading \<open>-- \<close> when they start with
  it and are unchanged otherwise: \<open>-- bar\<close> becomes \<open>bar\<close>, \<open>bar\<close> stays \<open>bar\<close>.
\<close>

theorem scullyArgs_normalisation:
  "scullyArgs_of ''-- bar'' = ''bar''
   \<and> scullyArgs_of ''bar'' = ''bar''
   \<and> scullyArgs_of (core_getInput e name) =
       (if prefix ''-- '' (core_getInput e name) then drop 3 (core_getInput e name)
        else core_getInput e name)"
proof -
  have "scullyArgs_of (core_getInput e name) =
       (if prefix ''-- '' (core_getInput e name) then drop 3 (core_getInput e name)
        else core_getInput e name)"
    by (simp add: scullyArgs_of_def core_getInput_def trim_idem indexOf_0_iff slice_def Let_def)
  moreover have "scullyArgs_of ''-- bar'' = ''bar''"
    by (simp add: scullyArgs_of_def string_defs Let_def)
  moreover have "scullyArgs_of ''bar'' = ''bar''"
    by (simp add: scullyArgs_of_def string_defs Let_def)
  ultimately show ?thesis by blast
qed

subsection \<open>Rules for actions\<close>

lemmas io_defs = return_io_def throw_io_def bind_io_def then_io_def console_log_def
  core_setFailed_def core_setOutput_def ioUtil_exists_def exec_exec_def readFileSync_def io_cp_def

lemmas step_defs = install_step_def build_step_def determine_scullyVersion_def add_nw_flag_def
  generate_step_def cname_step_def deploy_step_def

lemma bind_io_Inl: "snd (m h) = Inl err \<Longrightarrow> bind_io m f h = (fst (m h), Inl err)"
  by (cases "m h") (simp add: bind_io_def)

lemma bind_io_Inr: "snd (m h) = Inr x \<Longrightarrow> bind_io m f h = f x (fst (m h))"
  by (cases "m h") (simp add: bind_io_def)

lemma emits_return: "emits P (return_io x)"
  by (simp add: emits_def return_io_def)

lemma emits_throw: "emits P (throw_io x)"
  by (simp add: emits_def throw_io_def)

lemma emits_bind:
  assumes "emits P m" and "\<And>x. emits P (f x)"
  shows "emits P (bind_io m f)"
  unfolding emits_def
proof
  fix h
  obtain n1 where n1: "fst (m h) = h @ n1" "list_all P n1"
    using assms(1) by (auto simp: emits_def)
  show "\<exists>new. fst (bind_io m f h) = h @ new \<and> list_all P new"
  proof (cases "snd (m h)")
    case (Inl err)
    then show ?thesis using n1 by (simp add: bind_io_Inl)
  next
    case (Inr x)
    obtain n2 where n2: "fst (f x (h @ n1)) = (h @ n1) @ n2" "list_all P n2"
      using assms(2) [unfolded emits_def, rule_format, of x "h @ n1"] by auto
    have "fst (bind_io m f h) = h @ (n1 @ n2)" using Inr n1 n2 by (simp add: bind_io_Inr)
    moreover have "list_all P (n1 @ n2)" using n1 n2 by simp
    ultimately show ?thesis by blast
  qed
qed

lemma emits_then: "emits P m \<Longrightarrow> emits P n \<Longrightarrow> emits P (then_io m n)"
  by (simp add: then_io_def emits_bind)

lemma emits_log: "P (Log s) \<Longrightarrow> emits P (console_log s)"
  by (simp add: emits_def console_log_def)

lemma emits_setFailed: "P (SetFailed s) \<Longrightarrow> emits P (core_setFailed s)"
  by (simp add: emits_def core_setFailed_def)

lemma emits_setOutput: "P (SetOutput n v) \<Longrightarrow> emits P (core_setOutput n v)"
  by (simp add: emits_def core_setOutput_def)

lemma emits_exists: "P (Exists p) \<Longrightarrow> emits P (ioUtil_exists e p)"
  by (simp add: emits_def ioUtil_exists_def)

lemma emits_exec: "P (Exec c a d) \<Longrightarrow> emits P (exec_exec e c a d)"
  by (simp add: emits_def exec_exec_def)

lemma emits_readFile: "P (ReadFile p) \<Longrightarrow> emits P (readFileSync e p)"
  by (simp add: emits_def readFileSync_def)

lemma emits_cp: "P (Cp s d f) \<Longrightarrow> emits P (io_cp e s d f)"
  by (simp add: emits_def io_cp_def)

lemma emits_if:
  "(c \<Longrightarrow> emits P m) \<Longrightarrow> (\<not> c \<Longrightarrow> emits P n) \<Longrightarrow> emits P (if c then m else n)"
  by simp

lemma emits_case_sum:
  "(\<And>a. emits P (f a)) \<Longrightarrow> (\<And>b. emits P (g b)) \<Longrightarrow>
   emits P (case x of Inl a \<Rightarrow> f a | Inr b \<Rightarrow> g b)"
  by (cases x) simp_all

lemma emits_case_option:
  "emits P m \<Longrightarrow> (\<And>b. emits P (g b)) \<Longrightarrow> emits P (case x of None \<Rightarrow> m | Some b \<Rightarrow> g b)"
  by (cases x) simp_all

lemmas emits_intros = emits_return emits_throw emits_bind emits_then emits_log emits_setFailed
  emits_setOutput emits_exists emits_exec emits_readFile emits_cp emits_if emits_case_sum
  emits_case_option

lemma emits_weaken: "emits P m \<Longrightarrow> (\<And>ev. P ev \<Longrightarrow> Q ev) \<Longrightarrow> emits Q m"
  unfolding emits_def list_all_iff by blast

lemma emits_throws_within: "emits P m \<Longrightarrow> throws_within P m"
  unfolding emits_def throws_within_def by blast

lemma throws_within_bind:
  assumes "emits P m" and "\<And>x. throws_within P (f x)"
  shows "throws_within P (bind_io m f)"
  unfolding throws_within_def
proof
  fix h
  obtain n1 where n1: "fst (m h) = h @ n1" "list_all P n1"
    using assms(1) by (auto simp: emits_def)
  show "\<exists>new. fst (bind_io m f h) = h @ new \<and> (isl (snd (bind_io m f h)) \<longrightarrow> list_all P new)"
  proof (cases "snd (m h)")
    case (Inl err)
    then show ?thesis using n1 by (simp add: bind_io_Inl)
  next
    case (Inr x)
    obtain n2 where n2: "fst (f x (h @ n1)) = (h @ n1) @ n2"
      "isl (snd (f x (h @ n1))) \<longrightarrow> list_all P n2"
      using assms(2) [unfolded throws_within_def, rule_format, of x "h @ n1"] by auto
    have "fst (bind_io m f h) = h @ (n1 @ n2)" using Inr n1 n2 by (simp add: bind_io_Inr)
    moreover have "isl (snd (bind_io m f h)) \<longrightarrow> list_all P (n1 @ n2)"
      using Inr n1 n2 by (simp add: bind_io_Inr)
    ultimately show ?thesis by blast
  qed
qed

lemma throws_within_then:
  "emits P m \<Longrightarrow> throws_within P n \<Longrightarrow> throws_within P (then_io m n)"
  by (simp add: then_io_def throws_within_bind)

lemma throws_within_setOutput: "throws_within P (core_setOutput n v)"
  by (simp add: throws_within_def core_setOutput_def)

lemma throws_within_setFailed: "throws_within P (core_setFailed s)"
  by (simp add: throws_within_def core_setFailed_def)

lemma reaches_bind_left:
  assumes "reaches ev m" and "\<And>x. emits (\<lambda>_. True) (f x)"
  shows "reaches ev (bind_io m f)"
  unfolding reaches_def
proof
  fix h
  obtain n1 where n1: "fst (m h) = h @ n1" "\<not> isl (snd (m h)) \<longrightarrow> ev \<in> set n1"
    using assms(1) by (auto simp: reaches_def)
  show "\<exists>new. fst (bind_io m f h) = h @ new \<and> (\<not> isl (snd (bind_io m f h)) \<longrightarrow> ev \<in> set new)"
  proof (cases "snd (m h)")
    case (Inl err)
    then show ?thesis using n1 by (simp add: bind_io_Inl)
  next
    case (Inr x)
    obtain n2 where n2: "fst (f x (h @ n1)) = (h @ n1) @ n2"
      using assms(2) [unfolded emits_def, rule_format, of x "h @ n1"] by auto
    have "fst (bind_io m f h) = h @ (n1 @ n2)" using Inr n1 n2 by (simp add: bind_io_Inr)
    moreover have "ev \<in> set (n1 @ n2)" using Inr n1 by simp
    ultimately show ?thesis by blast
  qed
qed

lemma reaches_bind_right:
  assumes "emits (\<lambda>_. True) m" and "\<And>x. reaches ev (f x)"
  shows "reaches ev (bind_io m f)"
  unfolding reaches_def
proof
  fix h
  obtain n1 where n1: "fst (m h) = h @ n1"
    using assms(1) by (auto simp: emits_def)
  show "\<exists>new. fst (bind_io m f h) = h @ new \<and> (\<not> isl (snd (bind_io m f h)) \<longrightarrow> ev \<in> set new)"
  proof (cases "snd (m h)")
    case (Inl err)
    then show ?thesis using n1 by (simp add: bind_io_Inl)
  next
    case (Inr x)
    obtain n2 where n2: "fst (f x (h @ n1)) = (h @ n1) @ n2"
      "\<not> isl (snd (f x (h @ n1))) \<longrightarrow> ev \<in> set n2"
      using assms(2) [unfolded reaches_def, rule_format, of x "h @ n1"] by auto
    have "fst (bind_io m f h) = h @ (n1 @ n2)" using Inr n1 n2 by (simp add: bind_io_Inr)
    moreover have "\<not> isl (snd (bind_io m f h)) \<longrightarrow> ev \<in> set (n1 @ n2)"
      using Inr n1 n2 by (simp add: bind_io_Inr)
    ultimately show ?thesis by blast
  qed
qed

lemma reaches_then_left: "reaches ev m \<Longrightarrow> emits (\<lambda>_. True) n \<Longrightarrow> reaches ev (then_io m n)"
  by (simp add: then_io_def reaches_bind_left)

lemma reaches_then_right: "emits (\<lambda>_. True) m \<Longrightarrow> reaches ev n \<Longrightarrow> reaches ev (then_io m n)"
  by (simp add: then_io_def reaches_bind_right)

lemma reaches_exec: "reaches (Exec c a d) (exec_exec e c a d)"
  by (simp add: reaches_def exec_exec_def)

lemma emits_any_steps:
  "emits (\<lambda>_. True) (install_step e pm)"
  "emits (\<lambda>_. True) (build_step e pm b)"
  "emits (\<lambda>_. True) (determine_scullyVersion e pm)"
  "emits (\<lambda>_. True) (add_nw_flag v s)"
  "emits (\<lambda>_. True) (generate_step e pm s)"
  "emits (\<lambda>_. True) (cname_step e)"
  "emits (\<lambda>_. True) (deploy_step e tok br)"
  unfolding step_defs Let_def by (intro emits_intros; simp)+


subsection \<open>The run\<close>

lemmas scenario_defs = scenario_npm_def scenario_yarn_plugin_def scenario_deploy_ref_def
  scenario_non_error_def scenario_no_token_def scenario_blank_token_def scenario_cname_def

lemmas input_defs = core_getInput_def deployBranch_of_def DEFAULT_DEPLOY_BRANCH_def

lemma run_with_pkgManager_agrees:
  "emits (agrees_with pm) (run_with_pkgManager e tok br pm)"
  unfolding run_with_pkgManager_def step_defs Let_def
  by (intro emits_intros; simp)

lemma run_with_pkgManager_push:
  "emits (push_as_expected e)
     (run_with_pkgManager e (core_getInput e ''access-token'') (deployBranch_of e) pm)"
  unfolding run_with_pkgManager_def step_defs Let_def
  by (intro emits_intros; simp add: expected_push_def)

lemma run_with_pkgManager_quiet:
  "throws_within quiet (run_with_pkgManager e tok br pm)"
  unfolding run_with_pkgManager_def Let_def
  apply (intro throws_within_then throws_within_bind throws_within_setOutput)
  unfolding step_defs Let_def
  by (intro emits_intros; simp)+

lemma deploy_step_reaches_push:
  "reaches
     (Exec ''git push''
        [''-f'',
         ''https://'' @ tok @ ''@github.com/''
           @ (context_repo_owner e @ ''/'' @ context_repo_repo e) @ ''.git'',
         ''main:'' @ br]
        (Some ''./dist/static''))
     (deploy_step e tok br)"
  unfolding deploy_step_def Let_def
  by ((rule reaches_then_left, rule reaches_exec, (intro emits_intros; simp))
      | (rule reaches_then_right, (intro emits_intros; simp)))+

lemma run_with_pkgManager_reaches_push:
  "reaches (expected_push e)
     (run_with_pkgManager e (core_getInput e ''access-token'') (deployBranch_of e) pm)"
  unfolding run_with_pkgManager_def Let_def expected_push_def
  by ((rule reaches_then_left, rule deploy_step_reaches_push, (intro emits_intros; simp))
      | (rule reaches_then_right reaches_bind_right, (rule emits_any_steps | (rule emits_log, simp))))+

lemma failures_append: "failures (h @ h') = failures h @ failures h'"
  by (induction h rule: failures.induct) simp_all

lemma outputs_append: "outputs (h @ h') = outputs h @ outputs h'"
  by (induction h rule: outputs.induct) simp_all

lemma commands_append: "commands (h @ h') = commands h @ commands h'"
  by (induction h rule: commands.induct) simp_all

lemma quiet_trace: "list_all quiet h \<Longrightarrow> failures h = [] \<and> outputs h = []"
proof (induction h)
  case Nil
  show ?case by simp
next
  case (Cons ev h)
  then show ?case by (cases ev) simp_all
qed


lemma run_trace:
  "run e = fst (run_body e [])
     @ (case snd (run_body e []) of Inl (JsError message) \<Rightarrow> [SetFailed message] | _ \<Rightarrow> [])"
  by (simp add: run_def core_setFailed_def split: prod.split sum.split thrown.split)

lemma run_body_no_token:
  "core_getInput e ''access-token'' = [] \<Longrightarrow>
   run_body e = core_setFailed
     ''No personal access token found. Please provide one by setting the `access-token` input for this action.''"
  by (simp add: run_body_def)

lemma run_body_deploy_ref:
  "core_getInput e ''access-token'' \<noteq> [] \<Longrightarrow>
   context_ref e = ''refs/heads/'' @ deployBranch_of e \<Longrightarrow>
   run_body e =
     then_io (console_log (''Triggered by branch used to deploy: '' @ context_ref e @ ''.''))
             (console_log ''Nothing to deploy.'')"
  by (simp add: run_body_def Let_def)

lemma run_body_deploying:
  "core_getInput e ''access-token'' \<noteq> [] \<Longrightarrow>
   context_ref e \<noteq> ''refs/heads/'' @ deployBranch_of e \<Longrightarrow>
   run_body e =
     bind_io (ioUtil_exists e ''./yarn.lock'') (\<lambda>yarnLockExists.
       run_with_pkgManager e (core_getInput e ''access-token'') (deployBranch_of e)
         (if yarnLockExists then ''yarn'' else ''npm''))"
  by (simp add: run_body_def Let_def)

lemma run_body_quiet: "throws_within quiet (run_body e)"
proof -
  have a: "throws_within quiet (core_setFailed s)" for s
    by (rule throws_within_setFailed)
  have b: "throws_within quiet (then_io (console_log s1) (console_log s2))" for s1 s2
    by (intro emits_throws_within emits_intros; simp)
  have c: "throws_within quiet
      (bind_io (ioUtil_exists e p) (\<lambda>yarnLockExists. run_with_pkgManager e tok br (g yarnLockExists)))"
    for p tok br g
    by (intro throws_within_bind emits_exists run_with_pkgManager_quiet; simp)
  show ?thesis
    unfolding run_body_def Let_def using a b c by simp
qed

lemma run_body_push: "emits (push_as_expected e) (run_body e)"
  unfolding run_body_def Let_def
  by (intro emits_intros run_with_pkgManager_push; simp)


lemma emits_run:
  assumes "emits P (run_body e)" and "\<And>message. P (SetFailed message)"
  shows "list_all P (run e)"
proof -
  obtain new where "fst (run_body e []) = [] @ new" "list_all P new"
    using assms(1) [unfolded emits_def, rule_format, of "[]"] by blast
  then show ?thesis
    using assms(2) by (simp add: run_trace split: sum.split thrown.split)
qed

lemma then_io_extends:
  assumes "emits (\<lambda>_. True) n"
  shows "\<exists>new. fst (then_io m n h) = fst (m h) @ new"
proof (cases "snd (m h)")
  case (Inl err)
  then show ?thesis by (simp add: then_io_def bind_io_Inl)
next
  case (Inr x)
  then show ?thesis
    using assms [unfolded emits_def, rule_format, of "fst (m h)"]
    by (auto simp: then_io_def bind_io_Inr)
qed

lemma install_step_trace:
  "\<exists>new. fst (install_step e pm h) =
     h @ [Log (''Installing your site's dependencies using '' @ pm @ ''.''),
          Exec (pm @ '' '' @ (if pm = ''yarn'' then ''install --frozen-lockfile'' else ''ci'')) [] None]
       @ new"
  by (simp add: install_step_def io_defs Let_def split: option.split)

lemma run_with_pkgManager_installs:
  "\<exists>new. fst (run_with_pkgManager e tok br pm h) =
     h @ [Log (''Installing your site's dependencies using '' @ pm @ ''.''),
          Exec (pm @ '' '' @ (if pm = ''yarn'' then ''install --frozen-lockfile'' else ''ci'')) [] None]
       @ new"
proof -
  have "\<exists>new. fst (run_with_pkgManager e tok br pm h) = fst (install_step e pm h) @ new"
    unfolding run_with_pkgManager_def Let_def
    by (rule then_io_extends) (intro emits_intros emits_any_steps; simp)
  then show ?thesis
    using install_step_trace [of e pm h] by (metis append.assoc)
qed

subsection \<open>The claims\<close>

text \<open>
  Claim C4. When the access token is empty or consists of white space only, that is,
  when it is a sequence of code points that \<open>trim\<close> removes (none, for the empty token),
  the whole run is the report of the failure: no command, no probe and no other effect
  comes before it or after it.
\<close>

theorem missing_access_token_reported_first:
  assumes "input e ''access-token'' = concat ws"
    and "list_all is_whitespace ws"
  shows "run e =
    [SetFailed ''No personal access token found. Please provide one by setting the `access-token` input for this action.'']"
proof -
  have "core_getInput e ''access-token'' = []"
    using assms by (simp add: core_getInput_def trim_whitespace)
  then show ?thesis
    by (simp add: run_trace run_body_no_token core_setFailed_def)
qed

text \<open>
  The unset token, and a token made of a space, a NO-BREAK SPACE, a TAB, an
  IDEOGRAPHIC SPACE and a byte order mark.
\<close>

theorem missing_access_token_witness:
  "input scenario_no_token ''access-token'' = concat []
   \<and> run scenario_no_token =
    [SetFailed ''No personal access token found. Please provide one by setting the `access-token` input for this action.'']
   \<and> input scenario_blank_token ''access-token'' =
       concat [[CHR 0x20], [CHR 0xC2, CHR 0xA0], [CHR 0x09], [CHR 0xE3, CHR 0x80, CHR 0x80],
               [CHR 0xEF, CHR 0xBB, CHR 0xBF]]
   \<and> list_all is_whitespace
        [[CHR 0x20], [CHR 0xC2, CHR 0xA0], [CHR 0x09], [CHR 0xE3, CHR 0x80, CHR 0x80],
         [CHR 0xEF, CHR 0xBB, CHR 0xBF]]
   \<and> run scenario_blank_token =
    [SetFailed ''No personal access token found. Please provide one by setting the `access-token` input for this action.'']"
  using missing_access_token_reported_first [of scenario_no_token "[]"]
    missing_access_token_reported_first [of scenario_blank_token
      "[[CHR 0x20], [CHR 0xC2, CHR 0xA0], [CHR 0x09], [CHR 0xE3, CHR 0x80, CHR 0x80],
        [CHR 0xEF, CHR 0xBB, CHR 0xBF]]"]
  by (simp add: scenario_defs is_whitespace_def whitespace_sequences_def)

text \<open>
  A run with a token, triggered by the deploy branch itself, does not set the
  \<open>success\<close> output.
\<close>

theorem deploy_ref_counterexample:
  "core_getInput scenario_deploy_ref ''access-token'' \<noteq> []
   \<and> context_ref scenario_deploy_ref = ''refs/heads/'' @ deployBranch_of scenario_deploy_ref
   \<and> (''success'', True) \<notin> set (outputs (run scenario_deploy_ref))"
  by (simp add: run_trace run_body_def io_defs scenario_defs input_defs string_defs Let_def)

text \<open>
  Claim C1, amended. When the access token is not empty and the triggering ref is
  exactly \<open>refs/heads/\<close> followed by the deploy branch (\<open>main\<close> when the input is empty),
  the run writes two log lines and ends: no command is executed, no failure is reported
  and the \<open>success\<close> output is not set.
\<close>

theorem deploy_ref_ends_without_output:
  assumes "core_getInput e ''access-token'' \<noteq> []"
    and "context_ref e = ''refs/heads/'' @ deployBranch_of e"
  shows "run e =
           [Log (''Triggered by branch used to deploy: '' @ context_ref e @ ''.''),
            Log ''Nothing to deploy.'']
         \<and> commands (run e) = [] \<and> failures (run e) = [] \<and> outputs (run e) = []"
proof -
  have "run e =
           [Log (''Triggered by branch used to deploy: '' @ context_ref e @ ''.''),
            Log ''Nothing to deploy.'']"
    using assms by (simp add: run_trace run_body_deploy_ref io_defs)
  then show ?thesis by simp
qed

text \<open>
  The run triggered by \<open>refs/heads/main\<close> with the default deploy branch.
\<close>

theorem deploy_ref_witness:
  "core_getInput scenario_deploy_ref ''access-token'' \<noteq> []
   \<and> context_ref scenario_deploy_ref = ''refs/heads/'' @ deployBranch_of scenario_deploy_ref
   \<and> run scenario_deploy_ref =
       [Log ''Triggered by branch used to deploy: refs/heads/main.'', Log ''Nothing to deploy.'']"
  using deploy_ref_ends_without_output [of scenario_deploy_ref]
  by (simp add: scenario_defs input_defs string_defs)

text \<open>
  Claim C3. On the yarn path the version is taken from the first key that contains the
  package name, not from the entry of the package itself: for a lock file that lists a
  plugin of the generator at \<open>1.0.0\<close> before the generator at \<open>0.0.85\<close>, the code
  resolves \<open>1.0.0\<close>, although the entry of the generator is there with \<open>0.0.85\<close>, and the
  generator is then run without the flag that its version needs.
\<close>

theorem yarn_lock_first_matching_key:
  "snd (determine_scullyVersion scenario_yarn_plugin ''yarn'' []) = Inr (Some ''1.0.0'')
   \<and> (case lockfile_parse scenario_yarn_plugin ''{}'' of
         Inl err \<Rightarrow> None
       | Inr object \<Rightarrow> map_of object ''@scullyio/scully@^0.0.85'') = Some (Some ''0.0.85'')
   \<and> commands (run scenario_yarn_plugin) ! 2 = (''yarn run scully -- '', [], None)"
proof -
  have "commands (run scenario_yarn_plugin) ! 2 = (''yarn run scully -- '', [], None)"
    by (simp add: run_def run_body_def run_with_pkgManager_def io_defs step_defs semver_defs
        semver_lte_def SemVer_compare_def compareMain_def comparePre_def compare_numbers_def
        string_defs scenario_defs input_defs buildArgs_of_def scullyArgs_of_def template_value_def
        Let_def)
  then show ?thesis
    by (simp add: io_defs step_defs string_defs scenario_defs Let_def)
qed

text \<open>
  Claim C7. In a run that gets past the checks of the token and of the ref, the first
  event is the probe of \<open>./yarn.lock\<close>. If the probe answers, everything after it agrees
  with the one choice it determines: the first command is
  \<open>yarn install --frozen-lockfile\<close> when the file is there and \<open>npm ci\<close> when it is not,
  every later command is one of the chosen package manager or of git, the lock file
  read is the one of the chosen package manager, and \<open>./yarn.lock\<close> is not probed again.
\<close>

theorem package_manager_chosen_once:
  assumes "core_getInput e ''access-token'' \<noteq> []"
    and "context_ref e \<noteq> ''refs/heads/'' @ deployBranch_of e"
    and "exists_result e [] ''./yarn.lock'' = Inr yarnLockExists"
  shows "hd (run e) = Exists ''./yarn.lock''
    \<and> list_all (agrees_with (if yarnLockExists then ''yarn'' else ''npm'')) (tl (run e))
    \<and> take 1 (commands (run e)) =
        [(if yarnLockExists then ''yarn install --frozen-lockfile'' else ''npm ci'', [], None)]"
proof -
  define pm where "pm = (if yarnLockExists then ''yarn'' else ''npm'')"
  define body where
    "body = run_with_pkgManager e (core_getInput e ''access-token'') (deployBranch_of e) pm"
  have start: "run_body e [] = body [Exists ''./yarn.lock'']"
    using assms by (simp add: run_body_deploying bind_io_def ioUtil_exists_def body_def pm_def)
  obtain new where new: "fst (body [Exists ''./yarn.lock'']) = [Exists ''./yarn.lock''] @ new"
    "list_all (agrees_with pm) new"
    using run_with_pkgManager_agrees [of pm e] unfolding body_def emits_def by blast
  obtain rest where rest: "fst (body [Exists ''./yarn.lock'']) =
     [Exists ''./yarn.lock''] @ [Log (''Installing your site's dependencies using '' @ pm @ ''.''),
          Exec (pm @ '' '' @ (if pm = ''yarn'' then ''install --frozen-lockfile'' else ''ci'')) [] None]
       @ rest"
    using run_with_pkgManager_installs unfolding body_def by blast
  have first: "hd (run e) = Exists ''./yarn.lock''"
    by (simp add: run_trace start new)
  have later: "list_all (agrees_with pm) (tl (run e))"
    using new(2) by (simp add: run_trace start new(1) split: sum.split thrown.split)
  have install: "take 1 (commands (run e)) =
      [(pm @ '' '' @ (if pm = ''yarn'' then ''install --frozen-lockfile'' else ''ci''), [], None)]"
    by (simp add: run_trace start rest commands_append)
  show ?thesis
    using first later install by (simp add: pm_def split: if_splits)
qed

text \<open>
  A project without \<open>yarn.lock\<close> and a project with it.
\<close>

theorem package_manager_witness:
  "hd (run scenario_npm) = Exists ''./yarn.lock''
   \<and> list_all (agrees_with ''npm'') (tl (run scenario_npm))
   \<and> take 1 (commands (run scenario_npm)) = [(''npm ci'', [], None)]
   \<and> hd (run scenario_yarn_plugin) = Exists ''./yarn.lock''
   \<and> list_all (agrees_with ''yarn'') (tl (run scenario_yarn_plugin))
   \<and> take 1 (commands (run scenario_yarn_plugin)) = [(''yarn install --frozen-lockfile'', [], None)]"
  using package_manager_chosen_once [of scenario_npm False]
    package_manager_chosen_once [of scenario_yarn_plugin True]
  by (simp add: scenario_defs input_defs string_defs)


lemma run_npm_outcome:
  "commands (run scenario_npm) =
     [(''npm ci'', [], None),
      (''npm run build '', [], None),
      (''npm run scully -- --nw '', [], None),
      (''git init'', [], Some ''./dist/static''),
      (''git config user.name'', [''octocat''], Some ''./dist/static''),
      (''git config user.email'', [''octocat@users.noreply.github.com''], Some ''./dist/static''),
      (''git add'', [''.''], Some ''./dist/static''),
      (''git commit'',
       [''-m'', ''deployed via Scully Publish Action '' @ top_hat @ '' for 0123abc''],
       Some ''./dist/static''),
      (''git push'', [''-f'', ''https://tok@github.com/owner/site.git'', ''main:main''],
       Some ''./dist/static'')]
   \<and> failures (run scenario_npm) = []
   \<and> outputs (run scenario_npm) = [(''success'', True)]"
  by (simp add: run_def run_body_def run_with_pkgManager_def io_defs step_defs semver_defs
      semver_lte_def SemVer_compare_def compareMain_def comparePre_def compare_numbers_def
      string_defs scenario_defs input_defs buildArgs_of_def scullyArgs_of_def template_value_def
      Let_def)

text \<open>
  Claim C8. Every \<open>git push\<close> of a run is the forced push of \<open>main\<close> to the deploy
  branch at the URL \<open>https://<token>@github.com/<owner>/<repo>.git\<close>, run in the output
  directory; and a run that sets the \<open>success\<close> output has executed it.
\<close>

theorem push_is_the_expected_force_push:
  "list_all (push_as_expected e) (run e)
   \<and> ((''success'', True) \<in> set (outputs (run e)) \<longrightarrow> expected_push e \<in> set (run e))"
proof
  show "list_all (push_as_expected e) (run e)"
    by (rule emits_run [OF run_body_push]) simp
next
  show "(''success'', True) \<in> set (outputs (run e)) \<longrightarrow> expected_push e \<in> set (run e)"
  proof
    assume success: "(''success'', True) \<in> set (outputs (run e))"
    have token: "core_getInput e ''access-token'' \<noteq> []"
    proof
      assume "core_getInput e ''access-token'' = []"
      then have "outputs (run e) = []"
        by (simp add: run_trace run_body_no_token core_setFailed_def)
      with success show False by simp
    qed
    have ref: "context_ref e \<noteq> ''refs/heads/'' @ deployBranch_of e"
    proof
      assume "context_ref e = ''refs/heads/'' @ deployBranch_of e"
      then have "outputs (run e) = []"
        using token by (simp add: run_trace run_body_deploy_ref io_defs)
      with success show False by simp
    qed
    have "reaches (expected_push e) (run_body e)"
      unfolding run_body_deploying [OF token ref]
      by (intro reaches_bind_right emits_exists run_with_pkgManager_reaches_push) simp
    then obtain new where new: "fst (run_body e []) = [] @ new"
      "\<not> isl (snd (run_body e [])) \<longrightarrow> expected_push e \<in> set new"
      unfolding reaches_def by blast
    obtain new' where new': "fst (run_body e []) = [] @ new'"
      "isl (snd (run_body e [])) \<longrightarrow> list_all quiet new'"
      using run_body_quiet [of e] unfolding throws_within_def by blast
    have "\<not> isl (snd (run_body e []))"
    proof
      assume thrown: "isl (snd (run_body e []))"
      then have "outputs (fst (run_body e [])) = []"
        using new' quiet_trace by simp
      then have "outputs (run e) = []"
        using thrown by (simp add: run_trace outputs_append split: sum.split thrown.split)
      with success show False by simp
    qed
    then show "expected_push e \<in> set (run e)"
      using new by (simp add: run_trace)
  qed
qed

text \<open>
  The run of the npm scenario succeeds and pushes.
\<close>

theorem push_witness:
  "list_all (push_as_expected scenario_npm) (run scenario_npm)
   \<and> (''success'', True) \<in> set (outputs (run scenario_npm))
   \<and> Exec ''git push'' [''-f'', ''https://tok@github.com/owner/site.git'', ''main:main'']
        (Some ''./dist/static'') \<in> set (run scenario_npm)"
  using push_is_the_expected_force_push [of scenario_npm] run_npm_outcome
  by (simp add: expected_push_def scenario_defs input_defs string_defs)



text \<open>
  Claim C10. When the body of the run throws a value that is not an \<open>Error\<close>, the handler
  adds nothing: the trace of the run is the trace of the body, with no failure message
  and no output in it.
\<close>

theorem non_error_throw_reports_nothing:
  assumes "snd (run_body e []) = Inl NonError"
  shows "run e = fst (run_body e []) \<and> failures (run e) = [] \<and> outputs (run e) = []"
proof -
  obtain new where new: "fst (run_body e []) = [] @ new"
    "isl (snd (run_body e [])) \<longrightarrow> list_all quiet new"
    using run_body_quiet [of e] unfolding throws_within_def by blast
  have "run e = fst (run_body e [])"
    using assms by (simp add: run_trace)
  moreover have "failures (fst (run_body e [])) = [] \<and> outputs (fst (run_body e [])) = []"
    using new assms quiet_trace by simp
  ultimately show ?thesis by simp
qed

text \<open>
  A run whose installation rejects with a value that is not an \<open>Error\<close>.
\<close>

theorem non_error_throw_witness:
  "snd (run_body scenario_non_error []) = Inl NonError
   \<and> run scenario_non_error =
       [Exists ''./yarn.lock'', Log ''Installing your site's dependencies using npm.'',
        Exec ''npm ci'' [] None]
   \<and> failures (run scenario_non_error) = [] \<and> outputs (run scenario_non_error) = []"
proof -
  have body: "run_body scenario_non_error [] =
      ([Exists ''./yarn.lock'', Log ''Installing your site's dependencies using npm.'',
        Exec ''npm ci'' [] None], Inl NonError)"
    by (simp add: run_body_def run_with_pkgManager_def install_step_def io_defs scenario_defs
        input_defs string_defs Let_def)
  show ?thesis
    using non_error_throw_reports_nothing [of scenario_non_error] body by simp
qed

end
